theory Spec2Isabelle
  imports Complex_Main
begin

section \<open>Values of the request and of the response\<close>

text \<open>
  The controller \<^verbatim>\<open>src/controllers/userController.ts\<close> reads \<^verbatim>\<open>req.body\<close>, which
  is whatever the body parser produced: any JavaScript value built from JSON. A field that
  is absent reads as \<^verbatim>\<open>undefined\<close>.
\<close>

datatype jsnumber = NaN | PosInfinity | NegInfinity | Finite rat

datatype json =
    JUndefined
  | JNull
  | JBool bool
  | JNum jsnumber
  | JStr string
  | JArr "json list"
  | JObj "(string \<times> json) list"

text \<open>
  What a service call or a property read can throw. \<open>TypeError\<close> is the language's own
  (reading a property of \<^verbatim>\<open>undefined\<close> or \<^verbatim>\<open>null\<close>); the others come from
  the services.
\<close>

datatype fault = TypeError | ConflictError | StoreFault string

text \<open>
  \<^verbatim>\<open>!v\<close> is true exactly for the falsy values: \<^verbatim>\<open>undefined\<close>, \<^verbatim>\<open>null\<close>,
  \<^verbatim>\<open>false\<close>, zero, \<^verbatim>\<open>NaN\<close> and the empty string.
\<close>

fun falsy :: "json \<Rightarrow> bool" where
  "falsy JUndefined = True"
| "falsy JNull = True"
| "falsy (JBool b) = (\<not> b)"
| "falsy (JNum n) = (n = NaN \<or> n = Finite 0)"
| "falsy (JStr s) = (s = [])"
| "falsy (JArr xs) = False"
| "falsy (JObj kvs) = False"

text \<open>
  \<^verbatim>\<open>req.body.email\<close> and the destructuring \<^verbatim>\<open>const { email, password } = req.body\<close>:
  reading a property of \<^verbatim>\<open>undefined\<close> or \<^verbatim>\<open>null\<close> throws, an object gives the
  field or \<^verbatim>\<open>undefined\<close>, and every other value has no property of the names the
  controller reads (\<^verbatim>\<open>email\<close>, \<^verbatim>\<open>password\<close>).
\<close>

fun get_prop :: "json \<Rightarrow> string \<Rightarrow> fault + json" where
  "get_prop JUndefined k = Inl TypeError"
| "get_prop JNull k = Inl TypeError"
| "get_prop (JObj kvs) k = Inr (case map_of kvs k of None \<Rightarrow> JUndefined | Some v \<Rightarrow> v)"
| "get_prop v k = Inr JUndefined"

text \<open>The user row that \<^verbatim>\<open>findEmail\<close> resolves to; \<open>user_password\<close> is the stored hash.\<close>

record user =
  user_id :: nat
  user_name :: string
  user_email :: string
  user_password :: string

record validation_error =
  message :: string

datatype sent_body = Text string | Json json

record response =
  status :: nat
  sent :: sent_body

text \<open>
  A handler either sends a response or, when something throws outside its
  \<^verbatim>\<open>try\<close> block, rejects without having sent one.
\<close>

datatype outcome = Responded response | Rejected fault

subsection \<open>Express: \<^verbatim>\<open>res.sendStatus\<close>\<close>

function decimal :: "nat \<Rightarrow> string" where
  "decimal n = (if n < 10 then [char_of (48 + n)] else decimal (n div 10) @ [char_of (48 + n mod 10)])"
  by pat_completeness auto
termination
  by (relation "measure (\<lambda>n. n)") auto

text \<open>The reason phrase of a status code, or the code in decimal when it has none.\<close>

definition status_text :: "nat \<Rightarrow> string" where
  "status_text code =
     (if code = 200 then ''OK''
      else if code = 201 then ''Created''
      else if code = 400 then ''Bad Request''
      else if code = 401 then ''Unauthorized''
      else if code = 404 then ''Not Found''
      else if code = 409 then ''Conflict''
      else if code = 500 then ''Internal Server Error''
      else decimal code)"

definition sendStatus :: "nat \<Rightarrow> response" where
  "sendStatus code = \<lparr>status = code, sent = Text (status_text code)\<rparr>"

section \<open>The services the controller calls\<close>

text \<open>
  \<^verbatim>\<open>userService\<close> and \<^verbatim>\<open>sessionService\<close> are parameters of the controller. The awaited
  calls (\<^verbatim>\<open>findEmail\<close>, \<^verbatim>\<open>createUser\<close>, \<^verbatim>\<open>createNewSession\<close>) reach the stores: they
  take the state of the stores \<open>'w\<close> and return the new one, with a value or a fault. The
  two calls that are not awaited (\<^verbatim>\<open>signUpDataValidationError\<close>, \<^verbatim>\<open>isPasswordValid\<close>)
  are used synchronously, so they return a value or throw without reaching the stores.
\<close>

record 'w services =
  signUpDataValidationError :: "json \<Rightarrow> fault + validation_error option"
  findEmail :: "json \<Rightarrow> 'w \<Rightarrow> (fault + user option) \<times> 'w"
  createUser :: "json \<Rightarrow> 'w \<Rightarrow> (fault + unit) \<times> 'w"
  isPasswordValid :: "json \<Rightarrow> string \<Rightarrow> fault + bool"
  createNewSession :: "nat \<Rightarrow> 'w \<Rightarrow> (fault + string) \<times> 'w"

text \<open>Every call the handler makes is recorded, with its arguments and what it returned.\<close>

datatype event =
    CallSignUpDataValidationError json "fault + validation_error option"
  | CallFindEmail json "fault + user option"
  | CallCreateUser json "fault + unit"
  | CallIsPasswordValid json string "fault + bool"
  | CallCreateNewSession nat "fault + string"
  | ConsoleError fault

record 'w st =
  world :: 'w
  calls :: "event list"

definition request_start :: "'w \<Rightarrow> 'w st" where
  "request_start w = \<lparr>world = w, calls = []\<rparr>"

definition log_event :: "event \<Rightarrow> 'w st \<Rightarrow> 'w st" where
  "log_event e s = s\<lparr>calls := calls s @ [e]\<rparr>"

definition call_signUpDataValidationError ::
  "'w services \<Rightarrow> json \<Rightarrow> 'w st \<Rightarrow> (fault + validation_error option) \<times> 'w st" where
  "call_signUpDataValidationError sv body s =
     (let r = signUpDataValidationError sv body
      in (r, log_event (CallSignUpDataValidationError body r) s))"

definition call_findEmail ::
  "'w services \<Rightarrow> json \<Rightarrow> 'w st \<Rightarrow> (fault + user option) \<times> 'w st" where
  "call_findEmail sv email s =
     (case findEmail sv email (world s) of
        (r, w') \<Rightarrow> (r, log_event (CallFindEmail email r) (s\<lparr>world := w'\<rparr>)))"

definition call_createUser ::
  "'w services \<Rightarrow> json \<Rightarrow> 'w st \<Rightarrow> (fault + unit) \<times> 'w st" where
  "call_createUser sv body s =
     (case createUser sv body (world s) of
        (r, w') \<Rightarrow> (r, log_event (CallCreateUser body r) (s\<lparr>world := w'\<rparr>)))"

definition call_isPasswordValid ::
  "'w services \<Rightarrow> json \<Rightarrow> string \<Rightarrow> 'w st \<Rightarrow> (fault + bool) \<times> 'w st" where
  "call_isPasswordValid sv password hash s =
     (let r = isPasswordValid sv password hash
      in (r, log_event (CallIsPasswordValid password hash r) s))"

definition call_createNewSession ::
  "'w services \<Rightarrow> nat \<Rightarrow> 'w st \<Rightarrow> (fault + string) \<times> 'w st" where
  "call_createNewSession sv uid s =
     (case createNewSession sv uid (world s) of
        (r, w') \<Rightarrow> (r, log_event (CallCreateNewSession uid r) (s\<lparr>world := w'\<rparr>)))"

section \<open>The controller\<close>

text \<open>
  Both handlers end a \<^verbatim>\<open>try\<close> block with
  \<^verbatim>\<open>catch (error) { console.error(error); return res.sendStatus(500); }\<close>.
\<close>

definition catch_error :: "fault \<Rightarrow> 'w st \<Rightarrow> outcome \<times> 'w st" where
  "catch_error error s = (Responded (sendStatus 500), log_event (ConsoleError error) s)"

text \<open>\<^verbatim>\<open>signUp\<close>, lines 5 to 21. The validation call is outside the \<^verbatim>\<open>try\<close> block.\<close>

definition signUp_try :: "'w services \<Rightarrow> json \<Rightarrow> 'w st \<Rightarrow> outcome \<times> 'w st" where
  "signUp_try sv body s =
     (case get_prop body ''email'' of
        Inl error \<Rightarrow> catch_error error s
      | Inr email \<Rightarrow>
          (case call_findEmail sv email s of
             (Inl error, s1) \<Rightarrow> catch_error error s1
           | (Inr (Some user), s1) \<Rightarrow> (Responded (sendStatus 409), s1)
           | (Inr None, s1) \<Rightarrow>
               (case call_createUser sv body s1 of
                  (Inl error, s2) \<Rightarrow> catch_error error s2
                | (Inr u, s2) \<Rightarrow> (Responded (sendStatus 201), s2))))"

definition signUp :: "'w services \<Rightarrow> json \<Rightarrow> 'w st \<Rightarrow> outcome \<times> 'w st" where
  "signUp sv body s =
     (case call_signUpDataValidationError sv body s of
        (Inl error, s1) \<Rightarrow> (Rejected error, s1)
      | (Inr (Some validationError), s1) \<Rightarrow>
          (Responded \<lparr>status = 400, sent = Text (message validationError)\<rparr>, s1)
      | (Inr None, s1) \<Rightarrow> signUp_try sv body s1)"

text \<open>
  \<^verbatim>\<open>signIn\<close>, lines 23 to 44. The destructuring of \<^verbatim>\<open>req.body\<close> and the presence
  check are outside the \<^verbatim>\<open>try\<close> block.
\<close>

definition signIn_try :: "'w services \<Rightarrow> json \<Rightarrow> json \<Rightarrow> 'w st \<Rightarrow> outcome \<times> 'w st" where
  "signIn_try sv email password s =
     (case call_findEmail sv email s of
        (Inl error, s1) \<Rightarrow> catch_error error s1
      | (Inr None, s1) \<Rightarrow> (Responded (sendStatus 404), s1)
      | (Inr (Some user), s1) \<Rightarrow>
          (case call_isPasswordValid sv password (user_password user) s1 of
             (Inl error, s2) \<Rightarrow> catch_error error s2
           | (Inr False, s2) \<Rightarrow> (Responded (sendStatus 401), s2)
           | (Inr True, s2) \<Rightarrow>
               (case call_createNewSession sv (user_id user) s2 of
                  (Inl error, s3) \<Rightarrow> catch_error error s3
                | (Inr token, s3) \<Rightarrow>
                    (Responded \<lparr>status = 200,
                       sent = Json (JObj [(''name'', JStr (user_name user)),
                                          (''token'', JStr token)])\<rparr>, s3))))"

definition signIn :: "'w services \<Rightarrow> json \<Rightarrow> 'w st \<Rightarrow> outcome \<times> 'w st" where
  "signIn sv body s =
     (case get_prop body ''email'' of
        Inl error \<Rightarrow> (Rejected error, s)
      | Inr email \<Rightarrow>
          (case get_prop body ''password'' of
             Inl error \<Rightarrow> (Rejected error, s)
           | Inr password \<Rightarrow>
               if falsy email \<or> falsy password then (Responded (sendStatus 400), s)
               else signIn_try sv email password s))"

text \<open>The status code of the response, when one was sent.\<close>

fun status_of :: "outcome \<Rightarrow> nat option" where
  "status_of (Responded r) = Some (status r)"
| "status_of (Rejected error) = None"

text \<open>A call to one of the stores that threw.\<close>

fun store_fault :: "event \<Rightarrow> bool" where
  "store_fault (CallFindEmail email (Inl error)) = True"
| "store_fault (CallCreateUser body (Inl error)) = True"
| "store_fault (CallCreateNewSession uid (Inl error)) = True"
| "store_fault e = False"

text \<open>A call that reads or writes one of the stores, and a call that writes one.\<close>

fun store_call :: "event \<Rightarrow> bool" where
  "store_call (CallFindEmail email r) = True"
| "store_call (CallCreateUser body r) = True"
| "store_call (CallCreateNewSession uid r) = True"
| "store_call e = False"

fun mutating_call :: "event \<Rightarrow> bool" where
  "mutating_call (CallCreateUser body r) = True"
| "mutating_call (CallCreateNewSession uid r) = True"
| "mutating_call e = False"

fun session_call :: "event \<Rightarrow> bool" where
  "session_call (CallCreateNewSession uid r) = True"
| "session_call e = False"

section \<open>An instance of the services\<close>

text \<open>
  The controller imports its services from \<^verbatim>\<open>../services/userService\<close> and
  \<^verbatim>\<open>../services/sessionService\<close>. The theorems below hold for every value of the
  \<open>services\<close> record; the instance defined here is what they are run on at concrete
  requests.
\<close>

record stores =
  users :: "user list"
  sessions :: "(string \<times> nat) list"
  entropy :: "string list"

text \<open>
  Modelled from the spec: the Password Hasher (4.1) is missing. \<open>spec_hash\<close> stands for
  the salted one-way hash: all that is kept is that a password verifies against its own
  hash and no other password does.
\<close>

definition spec_hash :: "string \<Rightarrow> string" where
  "spec_hash plaintext = ''$2b$10$'' @ plaintext"

text \<open>
  Modelled from the spec: \<^verbatim>\<open>isPasswordValid\<close> is missing. Verification (4.1) recomputes
  the hash and compares; a password that is not a string makes the hasher throw.
\<close>

definition spec_isPasswordValid :: "json \<Rightarrow> string \<Rightarrow> fault + bool" where
  "spec_isPasswordValid password hash =
     (case password of JStr p \<Rightarrow> Inr (spec_hash p = hash) | _ \<Rightarrow> Inl TypeError)"

fun nonempty_string :: "json \<Rightarrow> bool" where
  "nonempty_string (JStr s) = (s \<noteq> [])"
| "nonempty_string v = False"

fun email_shaped :: "json \<Rightarrow> bool" where
  "email_shaped (JStr s) = (CHR ''@'' \<in> set s)"
| "email_shaped v = False"

text \<open>
  Modelled from the spec: \<^verbatim>\<open>signUpDataValidationError\<close> is missing. Sign-up step 1
  (4.4): \<^verbatim>\<open>name\<close>, \<^verbatim>\<open>email\<close> and \<^verbatim>\<open>password\<close> are all present and well-formed
  (non-empty, email-shaped); otherwise the body is malformed.
\<close>

definition spec_signUpDataValidationError :: "json \<Rightarrow> fault + validation_error option" where
  "spec_signUpDataValidationError body =
     (case (get_prop body ''name'', get_prop body ''email'', get_prop body ''password'') of
        (Inr name, Inr email, Inr password) \<Rightarrow>
          if nonempty_string name \<and> nonempty_string email \<and> email_shaped email
             \<and> nonempty_string password
          then Inr None
          else Inr (Some \<lparr>message = ''invalid body''\<rparr>)
      | _ \<Rightarrow> Inr (Some \<lparr>message = ''invalid body''\<rparr>))"

text \<open>
  Modelled from the spec: \<^verbatim>\<open>findEmail\<close> is missing. Credential Store (4.2): an
  exact-match lookup that returns the user or the absence sentinel and does not throw on
  not-found.
\<close>

definition spec_findEmail :: "json \<Rightarrow> stores \<Rightarrow> (fault + user option) \<times> stores" where
  "spec_findEmail email w =
     (case email of
        JStr e \<Rightarrow> (Inr (find (\<lambda>u. user_email u = e) (users w)), w)
      | _ \<Rightarrow> (Inr None, w))"

text \<open>
  Modelled from the spec: \<^verbatim>\<open>createUser\<close> is missing. Credential Store (4.2): the
  insert stores the hash of the password and fails with \<open>ConflictError\<close> when the email
  already exists, the store guarding uniqueness itself.
\<close>

definition spec_createUser :: "json \<Rightarrow> stores \<Rightarrow> (fault + unit) \<times> stores" where
  "spec_createUser body w =
     (case (get_prop body ''name'', get_prop body ''email'', get_prop body ''password'') of
        (Inr (JStr name), Inr (JStr email), Inr (JStr password)) \<Rightarrow>
          (case find (\<lambda>u. user_email u = email) (users w) of
             Some u \<Rightarrow> (Inl ConflictError, w)
           | None \<Rightarrow>
               (Inr (),
                w\<lparr>users := users w @
                     [\<lparr>user_id = Suc (length (users w)), user_name = name,
                       user_email = email, user_password = spec_hash password\<rparr>]\<rparr>))
      | _ \<Rightarrow> (Inl (StoreFault ''not-null constraint''), w))"

text \<open>
  Modelled from the spec: \<^verbatim>\<open>createNewSession\<close> is missing. Session Store (4.3): a
  fresh random token is generated and stored with the user id. The randomness is the
  \<open>entropy\<close> of the stores, a supply of tokens; when it is exhausted the call fails.
\<close>

definition spec_createNewSession :: "nat \<Rightarrow> stores \<Rightarrow> (fault + string) \<times> stores" where
  "spec_createNewSession uid w =
     (case entropy w of
        [] \<Rightarrow> (Inl (StoreFault ''no entropy''), w)
      | token # rest \<Rightarrow>
          (Inr token, w\<lparr>sessions := sessions w @ [(token, uid)], entropy := rest\<rparr>))"

definition spec_services :: "stores services" where
  "spec_services =
     \<lparr>signUpDataValidationError = spec_signUpDataValidationError,
      findEmail = spec_findEmail,
      createUser = spec_createUser,
      isPasswordValid = spec_isPasswordValid,
      createNewSession = spec_createNewSession\<rparr>"

text \<open>
  Modelled from the spec: the race of section 5. Between the lookup of a sign-up and its
  insert, a concurrent sign-up \<open>rival\<close> commits its own insert.
\<close>

definition race_services :: "json \<Rightarrow> stores services" where
  "race_services rival =
     spec_services
       \<lparr>findEmail := \<lambda>email w.
          (case spec_findEmail email w of (r, w1) \<Rightarrow> (r, snd (spec_createUser rival w1)))\<rparr>"

text \<open>
  Modelled from the spec: a storage-layer fault (4.5), the stores being unreachable:
  every store call throws.
\<close>

definition offline_services :: "stores services" where
  "offline_services =
     spec_services
       \<lparr>findEmail := \<lambda>email w. (Inl (StoreFault ''connection refused''), w),
        createUser := \<lambda>body w. (Inl (StoreFault ''connection refused''), w),
        createNewSession := \<lambda>uid w. (Inl (StoreFault ''connection refused''), w)\<rparr>"

subsection \<open>Concrete stores and requests\<close>

definition alice :: user where
  "alice = \<lparr>user_id = 1, user_name = ''A'', user_email = ''a@x.com'',
            user_password = spec_hash ''p1''\<rparr>"

definition empty_stores :: stores where
  "empty_stores = \<lparr>users = [], sessions = [], entropy = [''7f3c9a'']\<rparr>"

definition alice_stores :: stores where
  "alice_stores = \<lparr>users = [alice], sessions = [], entropy = [''7f3c9a'']\<rparr>"

definition sign_up_body :: "string \<Rightarrow> string \<Rightarrow> string \<Rightarrow> json" where
  "sign_up_body name email password =
     JObj [(''name'', JStr name), (''email'', JStr email), (''password'', JStr password),
           (''repeatPassword'', JStr password)]"

definition sign_in_body :: "string \<Rightarrow> string \<Rightarrow> json" where
  "sign_in_body email password = JObj [(''email'', JStr email), (''password'', JStr password)]"

section \<open>Facts about a single run\<close>

lemmas call_defs =
  call_signUpDataValidationError_def call_findEmail_def call_createUser_def
  call_isPasswordValid_def call_createNewSession_def log_event_def request_start_def
  catch_error_def Let_def

lemmas handler_defs = signUp_def signUp_try_def signIn_def signIn_try_def

lemmas spec_defs =
  spec_services_def spec_signUpDataValidationError_def spec_findEmail_def
  spec_createUser_def spec_isPasswordValid_def spec_createNewSession_def spec_hash_def

lemma sendStatus_simps:
  "sendStatus 201 = \<lparr>status = 201, sent = Text ''Created''\<rparr>"
  "sendStatus 400 = \<lparr>status = 400, sent = Text ''Bad Request''\<rparr>"
  "sendStatus 401 = \<lparr>status = 401, sent = Text ''Unauthorized''\<rparr>"
  "sendStatus 404 = \<lparr>status = 404, sent = Text ''Not Found''\<rparr>"
  "sendStatus 409 = \<lparr>status = 409, sent = Text ''Conflict''\<rparr>"
  "sendStatus 500 = \<lparr>status = 500, sent = Text ''Internal Server Error''\<rparr>"
  by (simp_all add: sendStatus_def status_text_def)

section \<open>Sign-in\<close>

text \<open>
  C1. In a sign-in, \<^verbatim>\<open>createNewSession\<close> is called only with the id of the user that
  \<^verbatim>\<open>findEmail\<close> returned for the email of the request, and only after
  \<^verbatim>\<open>isPasswordValid\<close> returned true for the password of the request and the stored
  hash of that user: any call of \<^verbatim>\<open>createNewSession\<close> is the third call of the run,
  after that lookup and that verification. No session is created when the lookup finds
  nobody or the password does not verify.
\<close>

theorem signIn_session_only_for_verified_user:
  assumes "CallCreateNewSession uid r \<in> set (calls (snd (signIn sv body (request_start w))))"
  shows "\<exists>email password u w1 rest.
           get_prop body ''email'' = Inr email
         \<and> get_prop body ''password'' = Inr password
         \<and> findEmail sv email w = (Inr (Some u), w1)
         \<and> isPasswordValid sv password (user_password u) = Inr True
         \<and> uid = user_id u
         \<and> fst (createNewSession sv uid w1) = r
         \<and> calls (snd (signIn sv body (request_start w))) =
             [CallFindEmail email (Inr (Some u)),
              CallIsPasswordValid password (user_password u) (Inr True),
              CallCreateNewSession uid r] @ rest"
  using assms
  by (auto simp: handler_defs call_defs Let_def
           split: sum.splits option.splits prod.splits bool.splits if_splits)

theorem signIn_session_only_for_verified_user_witness:
  "CallCreateNewSession 1 (Inr ''7f3c9a'')
     \<in> set (calls (snd (signIn spec_services (sign_in_body ''a@x.com'' ''p1'')
                          (request_start alice_stores))))
   \<and> (\<exists>email password u w1 rest.
           get_prop (sign_in_body ''a@x.com'' ''p1'') ''email'' = Inr email
         \<and> get_prop (sign_in_body ''a@x.com'' ''p1'') ''password'' = Inr password
         \<and> findEmail spec_services email alice_stores = (Inr (Some u), w1)
         \<and> isPasswordValid spec_services password (user_password u) = Inr True
         \<and> 1 = user_id u
         \<and> fst (createNewSession spec_services 1 w1) = Inr ''7f3c9a''
         \<and> calls (snd (signIn spec_services (sign_in_body ''a@x.com'' ''p1'')
                          (request_start alice_stores))) =
             [CallFindEmail email (Inr (Some u)),
              CallIsPasswordValid password (user_password u) (Inr True),
              CallCreateNewSession 1 (Inr ''7f3c9a'')] @ rest)"
proof -
  have h: "CallCreateNewSession 1 (Inr ''7f3c9a'')
     \<in> set (calls (snd (signIn spec_services (sign_in_body ''a@x.com'' ''p1'')
                          (request_start alice_stores))))"
    by (simp add: handler_defs call_defs spec_defs alice_def alice_stores_def sign_in_body_def)
  from h signIn_session_only_for_verified_user [OF h] show ?thesis
    by (rule conjI)
qed

text \<open>
  C2, as amended. A sign-in whose email matches no user record is never answered 401; it
  is answered 404 when the request passes the presence check of line 26, that is when
  its email and its password are both truthy. The lookup is then the only call made.
\<close>

theorem signIn_unknown_email:
  assumes "get_prop body ''email'' = Inr email"
    and "fst (findEmail sv email w) = Inr None"
  shows "status_of (fst (signIn sv body (request_start w))) \<noteq> Some 401
       \<and> (\<forall>password. get_prop body ''password'' = Inr password
             \<and> \<not> falsy email \<and> \<not> falsy password \<longrightarrow>
             signIn sv body (request_start w) =
               (Responded \<lparr>status = 404, sent = Text ''Not Found''\<rparr>,
                \<lparr>world = snd (findEmail sv email w),
                 calls = [CallFindEmail email (Inr None)]\<rparr>))"
  using assms
  by (auto simp: handler_defs call_defs sendStatus_simps
           split: sum.splits option.splits prod.splits bool.splits)

theorem signIn_unknown_email_witness:
  "get_prop (sign_in_body ''ghost@x.com'' ''p1'') ''email'' = Inr (JStr ''ghost@x.com'')
   \<and> fst (findEmail spec_services (JStr ''ghost@x.com'') alice_stores) = Inr None
   \<and> get_prop (sign_in_body ''ghost@x.com'' ''p1'') ''password'' = Inr (JStr ''p1'')
   \<and> \<not> falsy (JStr ''ghost@x.com'') \<and> \<not> falsy (JStr ''p1'')
   \<and> status_of (fst (signIn spec_services (sign_in_body ''ghost@x.com'' ''p1'')
                        (request_start alice_stores))) \<noteq> Some 401
   \<and> signIn spec_services (sign_in_body ''ghost@x.com'' ''p1'') (request_start alice_stores) =
       (Responded \<lparr>status = 404, sent = Text ''Not Found''\<rparr>,
        \<lparr>world = alice_stores, calls = [CallFindEmail (JStr ''ghost@x.com'') (Inr None)]\<rparr>)"
proof -
  have h1: "get_prop (sign_in_body ''ghost@x.com'' ''p1'') ''email'' = Inr (JStr ''ghost@x.com'')"
    by (simp add: spec_defs alice_def alice_stores_def sign_in_body_def)
  have h2: "fst (findEmail spec_services (JStr ''ghost@x.com'') alice_stores) = Inr None"
    by (simp add: spec_defs alice_def alice_stores_def sign_in_body_def)
  have h3: "get_prop (sign_in_body ''ghost@x.com'' ''p1'') ''password'' = Inr (JStr ''p1'')"
    by (simp add: spec_defs alice_def alice_stores_def sign_in_body_def)
  have h4: "snd (findEmail spec_services (JStr ''ghost@x.com'') alice_stores) = alice_stores"
    by (simp add: spec_defs alice_def alice_stores_def sign_in_body_def)
  from signIn_unknown_email [OF h1 h2] h1 h2 h3 h4 show ?thesis
    by simp
qed

text \<open>
  C2 as stated fails: the request \<^verbatim>\<open>{ email: "ghost@x.com" }\<close>, with no password,
  has an email that matches no user record, and is answered 400.
\<close>

theorem signIn_unknown_email_counterexample:
  "get_prop (JObj [(''email'', JStr ''ghost@x.com'')]) ''email'' = Inr (JStr ''ghost@x.com'')
   \<and> fst (findEmail spec_services (JStr ''ghost@x.com'') alice_stores) = Inr None
   \<and> status_of (fst (signIn spec_services (JObj [(''email'', JStr ''ghost@x.com'')])
                        (request_start alice_stores))) = Some 400
   \<and> status_of (fst (signIn spec_services (JObj [(''email'', JStr ''ghost@x.com'')])
                        (request_start alice_stores))) \<noteq> Some 404"
  by (simp add: handler_defs call_defs spec_defs alice_def alice_stores_def sendStatus_simps)

text \<open>
  C3, as amended. A sign-in whose email matches a registered user and whose password
  fails verification against the stored hash is never answered 404; it is answered 401
  when the request passes the presence check of line 26, that is when its email and its
  password are both truthy. No session is created.
\<close>

theorem signIn_wrong_password:
  assumes "get_prop body ''email'' = Inr email"
    and "get_prop body ''password'' = Inr password"
    and "findEmail sv email w = (Inr (Some u), w1)"
    and "isPasswordValid sv password (user_password u) = Inr False"
  shows "status_of (fst (signIn sv body (request_start w))) \<noteq> Some 404
       \<and> (\<not> falsy email \<and> \<not> falsy password \<longrightarrow>
             signIn sv body (request_start w) =
               (Responded \<lparr>status = 401, sent = Text ''Unauthorized''\<rparr>,
                \<lparr>world = w1,
                 calls = [CallFindEmail email (Inr (Some u)),
                          CallIsPasswordValid password (user_password u) (Inr False)]\<rparr>))"
  using assms
  by (auto simp: handler_defs call_defs sendStatus_simps
           split: sum.splits option.splits prod.splits bool.splits)

theorem signIn_wrong_password_witness:
  "get_prop (sign_in_body ''a@x.com'' ''guess'') ''email'' = Inr (JStr ''a@x.com'')
   \<and> get_prop (sign_in_body ''a@x.com'' ''guess'') ''password'' = Inr (JStr ''guess'')
   \<and> findEmail spec_services (JStr ''a@x.com'') alice_stores = (Inr (Some alice), alice_stores)
   \<and> isPasswordValid spec_services (JStr ''guess'') (user_password alice) = Inr False
   \<and> \<not> falsy (JStr ''a@x.com'') \<and> \<not> falsy (JStr ''guess'')
   \<and> status_of (fst (signIn spec_services (sign_in_body ''a@x.com'' ''guess'')
                        (request_start alice_stores))) \<noteq> Some 404
   \<and> signIn spec_services (sign_in_body ''a@x.com'' ''guess'') (request_start alice_stores) =
       (Responded \<lparr>status = 401, sent = Text ''Unauthorized''\<rparr>,
        \<lparr>world = alice_stores,
         calls = [CallFindEmail (JStr ''a@x.com'') (Inr (Some alice)),
                  CallIsPasswordValid (JStr ''guess'') (user_password alice) (Inr False)]\<rparr>)"
proof -
  have h1: "get_prop (sign_in_body ''a@x.com'' ''guess'') ''email'' = Inr (JStr ''a@x.com'')"
    by (simp add: spec_defs alice_def alice_stores_def sign_in_body_def)
  have h2: "get_prop (sign_in_body ''a@x.com'' ''guess'') ''password'' = Inr (JStr ''guess'')"
    by (simp add: spec_defs alice_def alice_stores_def sign_in_body_def)
  have h3: "findEmail spec_services (JStr ''a@x.com'') alice_stores
              = (Inr (Some alice), alice_stores)"
    by (simp add: spec_defs alice_def alice_stores_def sign_in_body_def)
  have h4: "isPasswordValid spec_services (JStr ''guess'') (user_password alice) = Inr False"
    by (simp add: spec_defs alice_def alice_stores_def sign_in_body_def)
  from signIn_wrong_password [OF h1 h2 h3 h4] h1 h2 h3 h4 show ?thesis
    by simp
qed

text \<open>
  C3 as stated fails: the request \<^verbatim>\<open>{ email: "a@x.com", password: "" }\<close> names a
  registered user, its password fails verification against the stored hash, and it is
  answered 400.
\<close>

theorem signIn_wrong_password_counterexample:
  "get_prop (sign_in_body ''a@x.com'' '''') ''email'' = Inr (JStr ''a@x.com'')
   \<and> get_prop (sign_in_body ''a@x.com'' '''') ''password'' = Inr (JStr '''')
   \<and> findEmail spec_services (JStr ''a@x.com'') alice_stores = (Inr (Some alice), alice_stores)
   \<and> isPasswordValid spec_services (JStr '''') (user_password alice) = Inr False
   \<and> status_of (fst (signIn spec_services (sign_in_body ''a@x.com'' '''')
                        (request_start alice_stores))) = Some 400
   \<and> status_of (fst (signIn spec_services (sign_in_body ''a@x.com'' '''')
                        (request_start alice_stores))) \<noteq> Some 401"
  by (simp add: handler_defs call_defs spec_defs alice_def alice_stores_def sign_in_body_def sendStatus_simps)

text \<open>
  C5. A sign-in that passes the presence check, whose lookup finds a user, whose password
  verifies against that user's hash, and for which session creation returns a token, is
  answered with status 200 and the body \<^verbatim>\<open>{ name, token }\<close>: the stored name of that
  user and the token that \<^verbatim>\<open>createNewSession\<close> returned for that user's id, and
  nothing else.
\<close>

theorem signIn_success:
  assumes "get_prop body ''email'' = Inr email"
    and "get_prop body ''password'' = Inr password"
    and "\<not> falsy email" and "\<not> falsy password"
    and "findEmail sv email w = (Inr (Some u), w1)"
    and "isPasswordValid sv password (user_password u) = Inr True"
    and "createNewSession sv (user_id u) w1 = (Inr token, w2)"
  shows "signIn sv body (request_start w) =
           (Responded \<lparr>status = 200,
              sent = Json (JObj [(''name'', JStr (user_name u)), (''token'', JStr token)])\<rparr>,
            \<lparr>world = w2,
             calls = [CallFindEmail email (Inr (Some u)),
                      CallIsPasswordValid password (user_password u) (Inr True),
                      CallCreateNewSession (user_id u) (Inr token)]\<rparr>)"
  using assms
  by (simp add: handler_defs call_defs)

theorem signIn_success_witness:
  "get_prop (sign_in_body ''a@x.com'' ''p1'') ''email'' = Inr (JStr ''a@x.com'')
   \<and> get_prop (sign_in_body ''a@x.com'' ''p1'') ''password'' = Inr (JStr ''p1'')
   \<and> \<not> falsy (JStr ''a@x.com'') \<and> \<not> falsy (JStr ''p1'')
   \<and> findEmail spec_services (JStr ''a@x.com'') alice_stores = (Inr (Some alice), alice_stores)
   \<and> isPasswordValid spec_services (JStr ''p1'') (user_password alice) = Inr True
   \<and> createNewSession spec_services (user_id alice) alice_stores =
       (Inr ''7f3c9a'', alice_stores\<lparr>sessions := [(''7f3c9a'', 1)], entropy := []\<rparr>)
   \<and> signIn spec_services (sign_in_body ''a@x.com'' ''p1'') (request_start alice_stores) =
       (Responded \<lparr>status = 200,
          sent = Json (JObj [(''name'', JStr ''A''), (''token'', JStr ''7f3c9a'')])\<rparr>,
        \<lparr>world = alice_stores\<lparr>sessions := [(''7f3c9a'', 1)], entropy := []\<rparr>,
         calls = [CallFindEmail (JStr ''a@x.com'') (Inr (Some alice)),
                  CallIsPasswordValid (JStr ''p1'') (user_password alice) (Inr True),
                  CallCreateNewSession 1 (Inr ''7f3c9a'')]\<rparr>)"
proof -
  have h1: "get_prop (sign_in_body ''a@x.com'' ''p1'') ''email'' = Inr (JStr ''a@x.com'')"
    by (simp add: spec_defs alice_def alice_stores_def sign_in_body_def)
  have h2: "get_prop (sign_in_body ''a@x.com'' ''p1'') ''password'' = Inr (JStr ''p1'')"
    by (simp add: spec_defs alice_def alice_stores_def sign_in_body_def)
  have h3: "\<not> falsy (JStr ''a@x.com'')" by simp
  have h4: "\<not> falsy (JStr ''p1'')" by simp
  have h5: "findEmail spec_services (JStr ''a@x.com'') alice_stores
              = (Inr (Some alice), alice_stores)"
    by (simp add: spec_defs alice_def alice_stores_def sign_in_body_def)
  have h6: "isPasswordValid spec_services (JStr ''p1'') (user_password alice) = Inr True"
    by (simp add: spec_defs alice_def alice_stores_def sign_in_body_def)
  have h7: "createNewSession spec_services (user_id alice) alice_stores =
       (Inr ''7f3c9a'', alice_stores\<lparr>sessions := [(''7f3c9a'', 1)], entropy := []\<rparr>)"
    by (simp add: spec_defs alice_def alice_stores_def sign_in_body_def)
  have n: "user_name alice = ''A''" "user_id alice = 1"
    by (simp_all add: alice_def)
  from signIn_success [OF h1 h2 h3 h4 h5 h6 h7] h1 h2 h3 h4 h5 h6 h7 n show ?thesis
    by simp
qed

text \<open>
  C10. A sign-in in which the email or the password is the empty string is answered 400,
  exactly as when the field is absent: no service is called, the stores are left as they
  were, and the answer is therefore neither 404 nor 401.
\<close>

theorem signIn_empty_field:
  assumes "get_prop body ''email'' = Inr email"
    and "get_prop body ''password'' = Inr password"
    and "email \<in> {JStr [], JUndefined} \<or> password \<in> {JStr [], JUndefined}"
  shows "signIn sv body (request_start w) =
           (Responded \<lparr>status = 400, sent = Text ''Bad Request''\<rparr>,
            \<lparr>world = w, calls = []\<rparr>)"
  using assms
  by (auto simp: handler_defs call_defs sendStatus_simps)

theorem signIn_empty_field_witness:
  "get_prop (sign_in_body ''a@x.com'' '''') ''email'' = Inr (JStr ''a@x.com'')
   \<and> get_prop (sign_in_body ''a@x.com'' '''') ''password'' = Inr (JStr [])
   \<and> (JStr ''a@x.com'' \<in> {JStr [], JUndefined} \<or> JStr [] \<in> {JStr [], JUndefined})
   \<and> signIn spec_services (sign_in_body ''a@x.com'' '''') (request_start alice_stores) =
       (Responded \<lparr>status = 400, sent = Text ''Bad Request''\<rparr>,
        \<lparr>world = alice_stores, calls = []\<rparr>)"
proof -
  have h1: "get_prop (sign_in_body ''a@x.com'' '''') ''email'' = Inr (JStr ''a@x.com'')"
    by (simp add: spec_defs sign_in_body_def)
  have h2: "get_prop (sign_in_body ''a@x.com'' '''') ''password'' = Inr (JStr [])"
    by (simp add: spec_defs sign_in_body_def)
  have h3: "JStr ''a@x.com'' \<in> {JStr [], JUndefined} \<or> JStr [] \<in> {JStr [], JUndefined}"
    by simp
  from signIn_empty_field [OF h1 h2 h3] h1 h2 h3 show ?thesis
    by simp
qed

section \<open>Sign-up\<close>

text \<open>
  C7. A sign-up whose body the validation reports as malformed is answered 400 with the
  message of the validation error, and the request ends there: the validation is the only
  call made, neither the lookup nor the insert nor any other store call is performed, and
  the stores are left as they were.
\<close>

theorem signUp_malformed_body:
  assumes "signUpDataValidationError sv body = Inr (Some validationError)"
  shows "signUp sv body (request_start w) =
           (Responded \<lparr>status = 400, sent = Text (message validationError)\<rparr>,
            \<lparr>world = w,
             calls = [CallSignUpDataValidationError body (Inr (Some validationError))]\<rparr>)
       \<and> list_all (\<lambda>e. \<not> store_call e) (calls (snd (signUp sv body (request_start w))))"
  using assms
  by (simp add: handler_defs call_defs)

theorem signUp_malformed_body_witness:
  "signUpDataValidationError spec_services
       (JObj [(''name'', JStr ''B''), (''password'', JStr ''p2''), (''repeatPassword'', JStr ''p2'')])
     = Inr (Some \<lparr>message = ''invalid body''\<rparr>)
   \<and> signUp spec_services
       (JObj [(''name'', JStr ''B''), (''password'', JStr ''p2''), (''repeatPassword'', JStr ''p2'')])
       (request_start alice_stores) =
       (Responded \<lparr>status = 400, sent = Text ''invalid body''\<rparr>,
        \<lparr>world = alice_stores,
         calls = [CallSignUpDataValidationError
                    (JObj [(''name'', JStr ''B''), (''password'', JStr ''p2''),
                           (''repeatPassword'', JStr ''p2'')])
                    (Inr (Some \<lparr>message = ''invalid body''\<rparr>))]\<rparr>)
   \<and> list_all (\<lambda>e. \<not> store_call e)
       (calls (snd (signUp spec_services
          (JObj [(''name'', JStr ''B''), (''password'', JStr ''p2''), (''repeatPassword'', JStr ''p2'')])
          (request_start alice_stores))))"
proof -
  have h: "signUpDataValidationError spec_services
       (JObj [(''name'', JStr ''B''), (''password'', JStr ''p2''), (''repeatPassword'', JStr ''p2'')])
     = Inr (Some \<lparr>message = ''invalid body''\<rparr>)"
    by (simp add: spec_defs)
  from signUp_malformed_body [OF h, of alice_stores] h show ?thesis
    by simp
qed

text \<open>
  C6, as amended. A sign-up whose email is already present in the Credential Store never
  invokes \<^verbatim>\<open>createUser\<close> nor any session creation, whatever the validation says; when its
  body passes the validation of line 6 it is answered 409, after the validation and the
  lookup and nothing else, the stores being as the lookup left them.
\<close>

theorem signUp_registered_email:
  assumes "get_prop body ''email'' = Inr email"
    and "findEmail sv email w = (Inr (Some u), w1)"
  shows "list_all (\<lambda>e. \<not> mutating_call e) (calls (snd (signUp sv body (request_start w))))
       \<and> (signUpDataValidationError sv body = Inr None \<longrightarrow>
             signUp sv body (request_start w) =
               (Responded \<lparr>status = 409, sent = Text ''Conflict''\<rparr>,
                \<lparr>world = w1,
                 calls = [CallSignUpDataValidationError body (Inr None),
                          CallFindEmail email (Inr (Some u))]\<rparr>))"
  using assms
  by (auto simp: handler_defs call_defs sendStatus_simps
           split: sum.splits option.splits)

theorem signUp_registered_email_witness:
  "get_prop (sign_up_body ''A'' ''a@x.com'' ''p1'') ''email'' = Inr (JStr ''a@x.com'')
   \<and> findEmail spec_services (JStr ''a@x.com'') alice_stores = (Inr (Some alice), alice_stores)
   \<and> signUpDataValidationError spec_services (sign_up_body ''A'' ''a@x.com'' ''p1'') = Inr None
   \<and> list_all (\<lambda>e. \<not> mutating_call e)
       (calls (snd (signUp spec_services (sign_up_body ''A'' ''a@x.com'' ''p1'')
                      (request_start alice_stores))))
   \<and> signUp spec_services (sign_up_body ''A'' ''a@x.com'' ''p1'') (request_start alice_stores) =
       (Responded \<lparr>status = 409, sent = Text ''Conflict''\<rparr>,
        \<lparr>world = alice_stores,
         calls = [CallSignUpDataValidationError (sign_up_body ''A'' ''a@x.com'' ''p1'') (Inr None),
                  CallFindEmail (JStr ''a@x.com'') (Inr (Some alice))]\<rparr>)"
proof -
  have h1: "get_prop (sign_up_body ''A'' ''a@x.com'' ''p1'') ''email'' = Inr (JStr ''a@x.com'')"
    by (simp add: spec_defs alice_def alice_stores_def sign_up_body_def)
  have h2: "findEmail spec_services (JStr ''a@x.com'') alice_stores
              = (Inr (Some alice), alice_stores)"
    by (simp add: spec_defs alice_def alice_stores_def sign_up_body_def)
  have h3: "signUpDataValidationError spec_services (sign_up_body ''A'' ''a@x.com'' ''p1'')
              = Inr None"
    by (simp add: spec_defs alice_def alice_stores_def sign_up_body_def)
  from signUp_registered_email [OF h1 h2] h1 h2 h3 show ?thesis
    by simp
qed

text \<open>
  C6 as stated fails: the sign-up \<^verbatim>\<open>{ email: "a@x.com", password: "p1" }\<close>, with no
  name, has an email that is already present in the Credential Store, and is answered 400.
\<close>

theorem signUp_registered_email_counterexample:
  "get_prop (sign_in_body ''a@x.com'' ''p1'') ''email'' = Inr (JStr ''a@x.com'')
   \<and> findEmail spec_services (JStr ''a@x.com'') alice_stores = (Inr (Some alice), alice_stores)
   \<and> status_of (fst (signUp spec_services (sign_in_body ''a@x.com'' ''p1'')
                        (request_start alice_stores))) = Some 400
   \<and> status_of (fst (signUp spec_services (sign_in_body ''a@x.com'' ''p1'')
                        (request_start alice_stores))) \<noteq> Some 409"
  by (simp add: handler_defs call_defs spec_defs alice_def alice_stores_def sign_in_body_def)

text \<open>
  C8. No sign-up ever invokes the Session Store; and a successful sign-up (the body
  passes validation, the lookup finds nobody, the insert succeeds) is answered 201 after
  exactly the validation, the lookup and the insert, the stores being as the insert left
  them.
\<close>

theorem signUp_success:
  "list_all (\<lambda>e. \<not> session_call e) (calls (snd (signUp sv body (request_start w))))
   \<and> (signUpDataValidationError sv body = Inr None
        \<and> get_prop body ''email'' = Inr email
        \<and> findEmail sv email w = (Inr None, w1)
        \<and> createUser sv body w1 = (Inr (), w2) \<longrightarrow>
        signUp sv body (request_start w) =
          (Responded \<lparr>status = 201, sent = Text ''Created''\<rparr>,
           \<lparr>world = w2,
            calls = [CallSignUpDataValidationError body (Inr None),
                     CallFindEmail email (Inr None),
                     CallCreateUser body (Inr ())]\<rparr>))"
  by (auto simp: handler_defs call_defs sendStatus_simps
           split: sum.splits option.splits prod.splits)

theorem signUp_success_witness:
  "signUpDataValidationError spec_services (sign_up_body ''A'' ''a@x.com'' ''p1'') = Inr None
   \<and> get_prop (sign_up_body ''A'' ''a@x.com'' ''p1'') ''email'' = Inr (JStr ''a@x.com'')
   \<and> findEmail spec_services (JStr ''a@x.com'') empty_stores = (Inr None, empty_stores)
   \<and> createUser spec_services (sign_up_body ''A'' ''a@x.com'' ''p1'') empty_stores =
       (Inr (), alice_stores)
   \<and> list_all (\<lambda>e. \<not> session_call e)
       (calls (snd (signUp spec_services (sign_up_body ''A'' ''a@x.com'' ''p1'')
                      (request_start empty_stores))))
   \<and> signUp spec_services (sign_up_body ''A'' ''a@x.com'' ''p1'') (request_start empty_stores) =
       (Responded \<lparr>status = 201, sent = Text ''Created''\<rparr>,
        \<lparr>world = alice_stores,
         calls = [CallSignUpDataValidationError (sign_up_body ''A'' ''a@x.com'' ''p1'') (Inr None),
                  CallFindEmail (JStr ''a@x.com'') (Inr None),
                  CallCreateUser (sign_up_body ''A'' ''a@x.com'' ''p1'') (Inr ())]\<rparr>)"
proof -
  have h1: "signUpDataValidationError spec_services (sign_up_body ''A'' ''a@x.com'' ''p1'')
              = Inr None"
    by (simp add: spec_defs alice_def alice_stores_def empty_stores_def sign_up_body_def)
  have h2: "get_prop (sign_up_body ''A'' ''a@x.com'' ''p1'') ''email'' = Inr (JStr ''a@x.com'')"
    by (simp add: spec_defs alice_def alice_stores_def empty_stores_def sign_up_body_def)
  have h3: "findEmail spec_services (JStr ''a@x.com'') empty_stores = (Inr None, empty_stores)"
    by (simp add: spec_defs alice_def alice_stores_def empty_stores_def sign_up_body_def)
  have h4: "createUser spec_services (sign_up_body ''A'' ''a@x.com'' ''p1'') empty_stores =
       (Inr (), alice_stores)"
    by (simp add: spec_defs alice_def alice_stores_def empty_stores_def sign_up_body_def)
  from signUp_success [of spec_services "sign_up_body ''A'' ''a@x.com'' ''p1''" empty_stores
                          "JStr ''a@x.com''" empty_stores alice_stores]
       h1 h2 h3 h4
  show ?thesis
    by simp
qed

text \<open>
  C4, as amended. Once the lookup of a sign-up has found no user, the answer is never 409,
  whatever the insert reports. When the insert of a validated sign-up throws, a
  uniqueness conflict included, the handler treats it as any other fault: it logs the
  error and answers 500. The lookup is the only check that yields 409.
\<close>

theorem signUp_insert_conflict:
  assumes "get_prop body ''email'' = Inr email"
    and "findEmail sv email w = (Inr None, w1)"
  shows "status_of (fst (signUp sv body (request_start w))) \<noteq> Some 409
       \<and> (signUpDataValidationError sv body = Inr None
            \<and> createUser sv body w1 = (Inl error, w2) \<longrightarrow>
            signUp sv body (request_start w) =
              (Responded \<lparr>status = 500, sent = Text ''Internal Server Error''\<rparr>,
               \<lparr>world = w2,
                calls = [CallSignUpDataValidationError body (Inr None),
                         CallFindEmail email (Inr None),
                         CallCreateUser body (Inl error),
                         ConsoleError error]\<rparr>))"
  using assms
  by (auto simp: handler_defs call_defs sendStatus_simps
           split: sum.splits option.splits prod.splits)

theorem signUp_insert_conflict_witness:
  "get_prop (sign_up_body ''A'' ''a@x.com'' ''p1'') ''email'' = Inr (JStr ''a@x.com'')
   \<and> findEmail (race_services (sign_up_body ''Z'' ''a@x.com'' ''p9'')) (JStr ''a@x.com'')
        empty_stores =
       (Inr None, snd (spec_createUser (sign_up_body ''Z'' ''a@x.com'' ''p9'') empty_stores))
   \<and> signUpDataValidationError (race_services (sign_up_body ''Z'' ''a@x.com'' ''p9''))
        (sign_up_body ''A'' ''a@x.com'' ''p1'') = Inr None
   \<and> createUser (race_services (sign_up_body ''Z'' ''a@x.com'' ''p9''))
        (sign_up_body ''A'' ''a@x.com'' ''p1'')
        (snd (spec_createUser (sign_up_body ''Z'' ''a@x.com'' ''p9'') empty_stores)) =
       (Inl ConflictError, snd (spec_createUser (sign_up_body ''Z'' ''a@x.com'' ''p9'') empty_stores))
   \<and> status_of (fst (signUp (race_services (sign_up_body ''Z'' ''a@x.com'' ''p9''))
                        (sign_up_body ''A'' ''a@x.com'' ''p1'') (request_start empty_stores)))
       \<noteq> Some 409
   \<and> signUp (race_services (sign_up_body ''Z'' ''a@x.com'' ''p9''))
        (sign_up_body ''A'' ''a@x.com'' ''p1'') (request_start empty_stores) =
       (Responded \<lparr>status = 500, sent = Text ''Internal Server Error''\<rparr>,
        \<lparr>world = snd (spec_createUser (sign_up_body ''Z'' ''a@x.com'' ''p9'') empty_stores),
         calls = [CallSignUpDataValidationError (sign_up_body ''A'' ''a@x.com'' ''p1'') (Inr None),
                  CallFindEmail (JStr ''a@x.com'') (Inr None),
                  CallCreateUser (sign_up_body ''A'' ''a@x.com'' ''p1'') (Inl ConflictError),
                  ConsoleError ConflictError]\<rparr>)"
proof -
  let ?sv = "race_services (sign_up_body ''Z'' ''a@x.com'' ''p9'')"
  let ?body = "sign_up_body ''A'' ''a@x.com'' ''p1''"
  let ?w1 = "snd (spec_createUser (sign_up_body ''Z'' ''a@x.com'' ''p9'') empty_stores)"
  have h1: "get_prop ?body ''email'' = Inr (JStr ''a@x.com'')"
    by (simp add: spec_defs race_services_def empty_stores_def sign_up_body_def)
  have h2: "findEmail ?sv (JStr ''a@x.com'') empty_stores = (Inr None, ?w1)"
    by (simp add: spec_defs race_services_def empty_stores_def sign_up_body_def)
  have h3: "signUpDataValidationError ?sv ?body = Inr None"
    by (simp add: spec_defs race_services_def empty_stores_def sign_up_body_def)
  have h4: "createUser ?sv ?body ?w1 = (Inl ConflictError, ?w1)"
    by (simp add: spec_defs race_services_def empty_stores_def sign_up_body_def)
  from signUp_insert_conflict [OF h1 h2, of ConflictError ?w1] h1 h2 h3 h4 show ?thesis
    by simp
qed

text \<open>
  C4 as stated fails: a sign-up for \<^verbatim>\<open>a@x.com\<close> whose lookup finds no user, and
  whose insert reports the uniqueness conflict because a concurrent sign-up for the same
  email committed in between, is answered 500, not 409.
\<close>

theorem signUp_insert_conflict_counterexample:
  "fst (findEmail (race_services (sign_up_body ''Z'' ''a@x.com'' ''p9'')) (JStr ''a@x.com'')
          empty_stores) = Inr None
   \<and> CallCreateUser (sign_up_body ''A'' ''a@x.com'' ''p1'') (Inl ConflictError)
       \<in> set (calls (snd (signUp (race_services (sign_up_body ''Z'' ''a@x.com'' ''p9''))
                            (sign_up_body ''A'' ''a@x.com'' ''p1'')
                            (request_start empty_stores))))
   \<and> status_of (fst (signUp (race_services (sign_up_body ''Z'' ''a@x.com'' ''p9''))
                        (sign_up_body ''A'' ''a@x.com'' ''p1'') (request_start empty_stores)))
       = Some 500
   \<and> status_of (fst (signUp (race_services (sign_up_body ''Z'' ''a@x.com'' ''p9''))
                        (sign_up_body ''A'' ''a@x.com'' ''p1'') (request_start empty_stores)))
       \<noteq> Some 409"
  by (simp add: handler_defs call_defs spec_defs race_services_def empty_stores_def sign_up_body_def sendStatus_simps)

section \<open>Faults of the stores\<close>

text \<open>
  C9. When a store call (\<^verbatim>\<open>findEmail\<close>, \<^verbatim>\<open>createUser\<close>, \<^verbatim>\<open>createNewSession\<close>)
  throws during a sign-up or a sign-in, the response is status 500 with the fixed text
  \<^verbatim>\<open>Internal Server Error\<close> as its body: the same response whatever was thrown, so
  nothing of the error reaches the caller.
\<close>

theorem store_fault_internal_error:
  "((\<exists>e \<in> set (calls (snd (signUp sv body (request_start w)))). store_fault e) \<longrightarrow>
      fst (signUp sv body (request_start w)) =
        Responded \<lparr>status = 500, sent = Text ''Internal Server Error''\<rparr>)
   \<and> ((\<exists>e \<in> set (calls (snd (signIn sv body (request_start w)))). store_fault e) \<longrightarrow>
      fst (signIn sv body (request_start w)) =
        Responded \<lparr>status = 500, sent = Text ''Internal Server Error''\<rparr>)"
  by (auto simp: handler_defs call_defs sendStatus_simps
           split: sum.splits option.splits prod.splits bool.splits if_splits)

theorem store_fault_internal_error_witness:
  "(\<exists>e \<in> set (calls (snd (signUp offline_services (sign_up_body ''A'' ''a@x.com'' ''p1'')
                            (request_start alice_stores)))). store_fault e)
   \<and> fst (signUp offline_services (sign_up_body ''A'' ''a@x.com'' ''p1'')
            (request_start alice_stores)) =
       Responded \<lparr>status = 500, sent = Text ''Internal Server Error''\<rparr>
   \<and> (\<exists>e \<in> set (calls (snd (signIn offline_services (sign_up_body ''A'' ''a@x.com'' ''p1'')
                            (request_start alice_stores)))). store_fault e)
   \<and> fst (signIn offline_services (sign_up_body ''A'' ''a@x.com'' ''p1'')
            (request_start alice_stores)) =
       Responded \<lparr>status = 500, sent = Text ''Internal Server Error''\<rparr>"
proof -
  have h1: "\<exists>e \<in> set (calls (snd (signUp offline_services (sign_up_body ''A'' ''a@x.com'' ''p1'')
                            (request_start alice_stores)))). store_fault e"
    by (simp add: handler_defs call_defs spec_defs offline_services_def sign_up_body_def)
  have h2: "\<exists>e \<in> set (calls (snd (signIn offline_services (sign_up_body ''A'' ''a@x.com'' ''p1'')
                            (request_start alice_stores)))). store_fault e"
    by (simp add: handler_defs call_defs spec_defs offline_services_def sign_up_body_def)
  from store_fault_internal_error
         [of offline_services "sign_up_body ''A'' ''a@x.com'' ''p1''" alice_stores] h1 h2
  show ?thesis
    by blast
qed

end
